theory Spec2Isabelle
  imports Main "HOL-Library.FSet" "HOL-Library.Sublist"
begin

section \<open>Strings\<close>

text \<open>
  Python strings are lists of characters. The operations of \<open>str\<close> that the program uses
  are written out: \<open>in\<close>, \<open>upper\<close>, \<open>split\<close> with and without a separator, \<open>strip\<close>,
  slicing from the start (\<open>take\<close>) and the decimal rendering of integers in f-strings.
\<close>

definition NL :: char where
  "NL = CHR 0x0A"

text \<open>
  \<open>str.isspace\<close>: the blank, the controls \<open>\t \n \v \f \r\<close>, the four
  separators U+001C to U+001F, and outside ASCII the two whitespace characters.
\<close>

definition is_space :: "char \<Rightarrow> bool" where
  "is_space c = (c \<in> set [CHR 0x20, CHR 0x09, CHR 0x0A, CHR 0x0B, CHR 0x0C, CHR 0x0D,
                           CHR 0x1C, CHR 0x1D, CHR 0x1E, CHR 0x1F, CHR 0x85, CHR 0xA0])"

text \<open>
  Python strings are sequences of Unicode code points. The characters of the model are
  the ASCII characters, as themselves, and from 0x80 on characters that stand for code
  points outside ASCII: 0x85 and 0xA0 for whitespace, the named ones below and in the
  section on the canvas for the code points that Python's upper-casing or the source's
  literals single out, and the rest for any other code point. One code point is one
  character, so lengths and slices are those of Python.
\<close>

definition DOTLESS_I :: char where "DOTLESS_I = CHR 0x89"
definition T_DIAERESIS :: char where "T_DIAERESIS = CHR 0x8A"

text \<open>
  The program upper-cases a text only to test whether HIRE or REJECT occurs in it.
  \<open>upper\<close> maps the letters a to z to A to Z. Outside ASCII, Python's
  \<open>str.upper\<close> produces a letter of these two words in a place where the word can be
  completed in two cases only: U+0131 (dotless i) becomes I, and U+1E97 (t with
  diaeresis) becomes T followed by a combining mark. The model maps these two
  accordingly; the mark after the T is left out, which changes neither test, T being the
  last letter of REJECT and no letter of HIRE. Every other character is left as it is.
\<close>

definition upper_char :: "char \<Rightarrow> char" where
  "upper_char c =
     (if c = DOTLESS_I then CHR ''I''
      else if c = T_DIAERESIS then CHR ''T''
      else case map_of (zip ''abcdefghijklmnopqrstuvwxyz'' ''ABCDEFGHIJKLMNOPQRSTUVWXYZ'') c of
             None \<Rightarrow> c
           | Some u \<Rightarrow> u)"

definition upper :: "string \<Rightarrow> string" where
  "upper s = map upper_char s"

text \<open>\<open>sub in s\<close>: the string \<open>sub\<close> occurs in \<open>s\<close> as a contiguous block.\<close>

fun str_in :: "string \<Rightarrow> string \<Rightarrow> bool" where
  "str_in sub [] = (sub = [])"
| "str_in sub (c # cs) = (prefix sub (c # cs) \<or> str_in sub cs)"

text \<open>\<open>s.split(sep)\<close> for a separator of one character; the result is never empty.\<close>

fun split_on :: "char \<Rightarrow> string \<Rightarrow> string list" where
  "split_on sep [] = [[]]"
| "split_on sep (c # cs) =
     (let r = split_on sep cs in if c = sep then [] # r else (c # hd r) # tl r)"

text \<open>
  \<open>s.split()\<close>: the maximal runs of characters that are not whitespace.
  \<open>split_acc word s\<close> carries the run read so far.
\<close>

fun split_acc :: "string \<Rightarrow> string \<Rightarrow> string list" where
  "split_acc word [] = (if word = [] then [] else [word])"
| "split_acc word (c # cs) =
     (if is_space c then (if word = [] then split_acc [] cs else word # split_acc [] cs)
      else split_acc (word @ [c]) cs)"

definition py_split :: "string \<Rightarrow> string list" where
  "py_split text = split_acc [] text"

text \<open>\<open>s.strip()\<close>: whitespace removed at both ends.\<close>

definition strip :: "string \<Rightarrow> string" where
  "strip s = rev (dropWhile is_space (rev (dropWhile is_space s)))"

text \<open>\<open>str(n)\<close> and \<open>f"{n}"\<close> for an integer.\<close>

definition digit :: "nat \<Rightarrow> char" where
  "digit d = ''0123456789'' ! d"

function str_nat :: "nat \<Rightarrow> string" where
  "str_nat n = (if n < 10 then [digit n] else str_nat (n div 10) @ [digit (n mod 10)])"
  by pat_completeness auto
termination
  by (relation "measure id") auto

declare str_nat.simps [simp del]

definition str_int :: "int \<Rightarrow> string" where
  "str_int i = (if i < 0 then CHR ''-'' # str_nat (nat (- i)) else str_nat (nat i))"

section \<open>Entities and their comparison\<close>

text \<open>
  \<open>extract_entities\<close> returns a Python set of \<open>(text, label)\<close> tuples. Python sets are
  finite, so they are finite sets here; tuples compare by value, and \<open>len\<close> is \<open>fcard\<close>.
\<close>

type_synonym entity = "string \<times> string"

text \<open>
  \<^verbatim>\<open>
  def compare_entities(transcript_ents, cv_ents):
      matched = transcript_ents.intersection(cv_ents)
      cv_only = cv_ents - transcript_ents
      return matched, cv_only
  \<close>
\<close>

definition compare_entities :: "entity fset \<Rightarrow> entity fset \<Rightarrow> entity fset \<times> entity fset" where
  "compare_entities transcript_ents cv_ents =
     (let matched = transcript_ents |\<inter>| cv_ents;
          cv_only = cv_ents |-| transcript_ents
      in (matched, cv_only))"

section \<open>The judgment\<close>

text \<open>
  \<open>get_llm_judgment\<close> imports \<open>ollama\<close> and calls \<open>ollama.generate\<close> inside
  \<open>try\<close>. The module is the first parameter of the model: \<open>None\<close> when the import fails,
  otherwise the function from the prompt to what \<open>generate\<close> does, which is to raise
  or to return a response. A response is a dict, of which only the text under the key
  \<open>'response'\<close> is read (if present), or some other object, of which only \<open>str(response)\<close>
  is read.
\<close>

datatype exn = Exn string

datatype response = RDict "string option" | ROther string

type_synonym judge = "string \<Rightarrow> exn + response"

text \<open>The f-string \<open>prompt\<close>; \<open>transcript[:400]\<close> is \<open>take 400\<close>.\<close>

definition prompt :: "string \<Rightarrow> int \<Rightarrow> entity fset \<Rightarrow> entity fset \<Rightarrow> string" where
  "prompt transcript grammar_errors matched_entities missing_entities =
     ''You are an expert HR interviewer. Analyze this interview professionally.'' @ [NL, NL]
     @ ''TRANSCRIPT (first 400 chars): '' @ take 400 transcript @ [NL, NL]
     @ ''ANALYSIS:'' @ [NL]
     @ ''- Grammar errors: '' @ str_int grammar_errors @ [NL]
     @ ''- Skills mentioned: '' @ str_nat (fcard matched_entities) @ [NL]
     @ ''- Skills missing: '' @ str_nat (fcard missing_entities) @ [NL, NL]
     @ ''Write a brief 3-4 sentence assessment. End with:'' @ [NL]
     @ ''VERDICT: HIRE / REJECT / MAYBE''"

text \<open>
  \<open>response.get('response', '') if isinstance(response, dict) else str(response)\<close>
\<close>

definition response_text :: "response \<Rightarrow> string" where
  "response_text response =
     (case response of
        RDict v \<Rightarrow> (case v of Some s \<Rightarrow> s | None \<Rightarrow> [])
      | ROther s \<Rightarrow> s)"

text \<open>
  The body of the \<open>try\<close> block: \<open>Inl\<close> when it raises, \<open>Inr (Some s)\<close> when it returns
  \<open>s\<close>, \<open>Inr None\<close> when it falls through.
  \<^verbatim>\<open>
  import ollama
  prompt = f"""..."""
  response = ollama.generate(model=OLLAMA_MODEL, prompt=prompt, options={...})
  assessment = response.get('response', '') if isinstance(response, dict) else str(response)
  if assessment and len(assessment) > 30:
      if "VERDICT:" not in assessment:
          if "HIRE" in assessment.upper():
              assessment += "\n\nVERDICT: HIRE"
          else:
              assessment += "\n\nVERDICT: REJECT"
      return assessment
  \<close>
\<close>

definition judge_try ::
  "judge option \<Rightarrow> string \<Rightarrow> int \<Rightarrow> entity fset \<Rightarrow> entity fset \<Rightarrow> exn + string option" where
  "judge_try ollama transcript grammar_errors matched_entities missing_entities =
     (case ollama of
        None \<Rightarrow> Inl (Exn ''ModuleNotFoundError'')
      | Some generate \<Rightarrow>
          (case generate (prompt transcript grammar_errors matched_entities missing_entities) of
             Inl e \<Rightarrow> Inl e
           | Inr response \<Rightarrow>
               (let assessment = response_text response in
                if assessment \<noteq> [] \<and> length assessment > 30 then
                  Inr (Some
                    (if \<not> str_in ''VERDICT:'' assessment then
                       (if str_in ''HIRE'' (upper assessment)
                        then assessment @ [NL, NL] @ ''VERDICT: HIRE''
                        else assessment @ [NL, NL] @ ''VERDICT: REJECT'')
                     else assessment))
                else Inr None)))"

text \<open>
  The conditional expression that computes the fallback verdict:
  \<^verbatim>\<open>
  verdict = "HIRE" if (grammar_errors < 5 and len(matched_entities) >= 3)
            else "REJECT" if grammar_errors > 15 else "MAYBE"
  \<close>
  \<open>grammar_errors\<close> is a Python int; the second argument is \<open>len(matched_entities)\<close>.
\<close>

definition fallback_verdict :: "int \<Rightarrow> nat \<Rightarrow> string" where
  "fallback_verdict grammar_errors n_matched =
     (if grammar_errors < 5 \<and> n_matched \<ge> 3 then ''HIRE''
      else if grammar_errors > 15 then ''REJECT''
      else ''MAYBE'')"

text \<open>The fallback, lines 90 to 94 of the source: the verdict and the f-string returned.\<close>

definition fallback_judgment :: "int \<Rightarrow> entity fset \<Rightarrow> string" where
  "fallback_judgment grammar_errors matched_entities =
     (let verdict = fallback_verdict grammar_errors (fcard matched_entities) in
      ''The candidate demonstrated professional communication abilities. Experience alignment is ''
      @ (if fcard matched_entities > 3 then ''excellent''
         else if fcard matched_entities > 1 then ''good'' else ''limited'')
      @ ''. Technical competency appears ''
      @ (if fcard matched_entities > 3 then ''strong'' else ''adequate'')
      @ ''.'' @ [NL, NL] @ ''VERDICT: '' @ verdict)"

text \<open>
  The whole function: a value returned inside \<open>try\<close> is the result; a bare \<open>except\<close>
  swallows every exception, and then, as when the block falls through, the fallback is
  returned. The result is a sum so that a raise of the function itself would be a value
  \<open>Inl\<close>.
\<close>

definition get_llm_judgment ::
  "judge option \<Rightarrow> string \<Rightarrow> int \<Rightarrow> entity fset \<Rightarrow> entity fset \<Rightarrow> exn + string" where
  "get_llm_judgment ollama transcript grammar_errors matched_entities missing_entities =
     (case judge_try ollama transcript grammar_errors matched_entities missing_entities of
        Inr (Some assessment) \<Rightarrow> Inr assessment
      | Inr None \<Rightarrow> Inr (fallback_judgment grammar_errors matched_entities)
      | Inl e \<Rightarrow> Inr (fallback_judgment grammar_errors matched_entities))"

text \<open>
  How \<open>main\<close> reads the verdict off the judgment:
  \<^verbatim>\<open>
  if "VERDICT:" in llm_summary:
      verdict = [l for l in llm_summary.split('\n') if 'VERDICT:' in l][0]
  \<close>
\<close>

definition verdict_line :: "string \<Rightarrow> string option" where
  "verdict_line llm_summary =
     (if str_in ''VERDICT:'' llm_summary
      then (case filter (str_in ''VERDICT:'') (split_on NL llm_summary) of
              [] \<Rightarrow> None
            | l # _ \<Rightarrow> Some l)
      else None)"

section \<open>The canvas\<close>

text \<open>
  The report is drawn through a reportlab \<open>Canvas\<close>. The model records the calls made
  on the canvas, in order, as events. Coordinates are in points on a letter page
  (\<open>w, h = letter\<close>, that is 612 by 792); the source computes them in floating point from
  whole numbers, so they are integers here. A colour is its three components in tenths:
  \<open>(2, 8, 2)\<close> is \<open>(0.2, 0.8, 0.2)\<close>.
\<close>

type_synonym rgb = "nat \<times> nat \<times> nat"

datatype event =
    SetFont string int
  | SetFillColorRGB rgb
  | SetStrokeColorRGB rgb
  | SetLineWidth nat
  | Rect int int int int
  | Line int int int int
  | DrawString int int string
  | ShowPage
  | Save

definition letter_w :: int where
  "letter_w = 612"

definition letter_h :: int where
  "letter_h = 792"

text \<open>
  The source's strings contain eight symbols from outside ASCII (a check mark, a ballot
  cross, a diamond and five pictographs). Each is one code point in Python and one named
  character here, neither a letter nor whitespace, so that lengths and word boundaries
  are those of the source.
\<close>

definition CHECK_MARK :: char where "CHECK_MARK = CHR 0x80"
definition BALLOT_X :: char where "BALLOT_X = CHR 0x81"
definition DIAMOND :: char where "DIAMOND = CHR 0x82"
definition BAR_CHART :: char where "BAR_CHART = CHR 0x83"
definition BRIEFCASE :: char where "BRIEFCASE = CHR 0x84"
definition DIRECT_HIT :: char where "DIRECT_HIT = CHR 0x86"
definition CHECK_BUTTON :: char where "CHECK_BUTTON = CHR 0x87"
definition CLIPBOARD :: char where "CLIPBOARD = CHR 0x88"

subsection \<open>Layout helpers of \<open>generate_beautiful_pdf\<close>\<close>

text \<open>
  Each helper returns the events it causes and the new vertical position.
  \<^verbatim>\<open>
  def draw_colored_box(y_pos, color_rgb, text, bold=False):
      c.setFillColorRGB(*color_rgb)
      c.rect(40, y_pos-25, w-80, 25, fill=True)
      c.setFillColorRGB(1, 1, 1)
      c.setFont("Helvetica-Bold" if bold else "Helvetica", 12)
      c.drawString(50, y_pos-18, text)
      c.setFillColorRGB(0, 0, 0)
      return y_pos - 30
  \<close>
\<close>

definition draw_colored_box :: "int \<Rightarrow> rgb \<Rightarrow> string \<Rightarrow> bool \<Rightarrow> event list \<times> int" where
  "draw_colored_box y_pos color_rgb text bold =
     ([SetFillColorRGB color_rgb,
       Rect 40 (y_pos - 25) (letter_w - 80) 25,
       SetFillColorRGB (10, 10, 10),
       SetFont (if bold then ''Helvetica-Bold'' else ''Helvetica'') 12,
       DrawString 50 (y_pos - 18) text,
       SetFillColorRGB (0, 0, 0)],
      y_pos - 30)"

text \<open>
  \<^verbatim>\<open>
  def draw_section_header(y_pos, title):
      c.setFont("Helvetica-Bold", 14)
      c.setFillColorRGB(0.2, 0.4, 0.7)
      c.drawString(40, y_pos, title)
      c.setStrokeColorRGB(0.2, 0.4, 0.7)
      c.setLineWidth(2)
      c.line(40, y_pos-5, w-40, y_pos-5)
      c.setFillColorRGB(0, 0, 0)
      c.setLineWidth(1)
      return y_pos - 25
  \<close>
\<close>

definition draw_section_header :: "int \<Rightarrow> string \<Rightarrow> event list \<times> int" where
  "draw_section_header y_pos title =
     ([SetFont ''Helvetica-Bold'' 14,
       SetFillColorRGB (2, 4, 7),
       DrawString 40 y_pos title,
       SetStrokeColorRGB (2, 4, 7),
       SetLineWidth 2,
       Line 40 (y_pos - 5) (letter_w - 40) (y_pos - 5),
       SetFillColorRGB (0, 0, 0),
       SetLineWidth 1],
      y_pos - 25)"

text \<open>
  The loop of \<open>wrap_text\<close> over the words, with the line under construction and the
  vertical position as its state:
  \<^verbatim>\<open>
  for word in words:
      if len((line + " " + word).strip()) * (size * 0.5) < max_width:
          line = (line + " " + word).strip()
      else:
          if line:
              c.drawString(x, y_pos, line[:110])
              y_pos -= size + 3
          line = word
      if y_pos < 50:
          c.showPage()
          y_pos = h - 40
  \<close>
  The comparison \<open>len * (size * 0.5) < max_width\<close> is between floats that are multiples
  of one half; doubled, it is the integer comparison below.
\<close>

fun wrap_loop ::
  "int \<Rightarrow> int \<Rightarrow> int \<Rightarrow> string list \<Rightarrow> string \<Rightarrow> int \<Rightarrow> event list \<times> string \<times> int" where
  "wrap_loop fsize x max_width [] line y_pos = ([], line, y_pos)"
| "wrap_loop fsize x max_width (word # words) line y_pos =
     (let cand = strip (line @ '' '' @ word);
          (ev1, line1, y1) =
            (if int (length cand) * fsize < 2 * max_width then ([], cand, y_pos)
             else if line \<noteq> []
               then ([DrawString x y_pos (take 110 line)], word, y_pos - (fsize + 3))
               else ([], word, y_pos));
          (ev2, y2) = (if y1 < 50 then ([ShowPage], letter_h - 40) else ([], y1));
          (evs, line', y') = wrap_loop fsize x max_width words line1 y2
      in (ev1 @ ev2 @ evs, line', y'))"

text \<open>
  \<^verbatim>\<open>
  def wrap_text(y_pos, text, size=10, indent=0):
      c.setFont("Helvetica", size)
      x = 40 + indent
      max_width = w - 80 - indent
      words = text.split()
      line = ""
      for word in words: ...
      if line:
          c.drawString(x, y_pos, line[:110])
          y_pos -= size + 3
      return y_pos
  \<close>
\<close>

definition wrap_text :: "int \<Rightarrow> string \<Rightarrow> int \<Rightarrow> int \<Rightarrow> event list \<times> int" where
  "wrap_text y_pos text fsize indent =
     (let x = 40 + indent;
          max_width = letter_w - 80 - indent;
          words = py_split text;
          (evs, line, y1) = wrap_loop fsize x max_width words [] y_pos
      in if line \<noteq> []
         then ([SetFont ''Helvetica'' fsize] @ evs @ [DrawString x y1 (take 110 line)],
               y1 - (fsize + 3))
         else ([SetFont ''Helvetica'' fsize] @ evs, y1))"

subsection \<open>What the report shows\<close>

text \<open>
  \<open>alignment\<close> is \<open>len(matched) / max(len(matched) + len(cv_only), 1) * 100\<close> when
  there is any CV entity and 0 otherwise, a float. Its comparisons with 75 and 50 are
  exact for every size a set can have, so they are comparisons of integers here. Its
  rendering \<open>f"{alignment:.0f}"\<close> rounds the float, which at the halves depends on the
  floating-point error; the environment supplies that text.
\<close>

definition alignment_above :: "nat \<Rightarrow> nat \<Rightarrow> nat \<Rightarrow> bool" where
  "alignment_above pct n_matched n_cv_only =
     (if n_matched + n_cv_only > 0 then 100 * n_matched > pct * (n_matched + n_cv_only)
      else False)"

definition comm_text :: "int \<Rightarrow> string" where
  "comm_text grammar_errors =
     (if grammar_errors < 3 then
        ''EXCELLENT - Outstanding communication with minimal errors. Speech is clear, professional, and well-articulated.''
      else if grammar_errors < 8 then
        ''GOOD - Generally clear communication with '' @ str_int grammar_errors
        @ '' minor errors. Ideas expressed well but could be more polished.''
      else if grammar_errors < 12 then
        ''AVERAGE - Communication present but '' @ str_int grammar_errors
        @ '' language errors detected. Needs professional language improvement.''
      else
        ''POOR - Multiple ('' @ str_int grammar_errors
        @ '') language errors affecting clarity. Significant improvement needed.'')"

definition exp_text :: "nat \<Rightarrow> nat \<Rightarrow> string" where
  "exp_text n_matched n_cv_only =
     (if alignment_above 75 n_matched n_cv_only then
        ''EXCELLENT - Candidate discussed '' @ str_nat n_matched
        @ '' key skills. Strong awareness of relevant experience with minimal CV gaps.''
      else if alignment_above 50 n_matched n_cv_only then
        ''GOOD - '' @ str_nat n_matched @ '' skills discussed. However, '' @ str_nat n_cv_only
        @ '' important CV experiences were not mentioned.''
      else
        ''CONCERNING - Only '' @ str_nat n_matched @ '' of '' @ str_nat (n_matched + n_cv_only)
        @ '' CV skills mentioned. Major experience gaps need clarification.'')"

definition tech_text :: "nat \<Rightarrow> string" where
  "tech_text n_matched =
     (if n_matched > 3 then
        ''STRONG - Demonstrated strong technical knowledge with specific examples. Shows confidence and domain expertise.''
      else if n_matched > 1 then
        ''ADEQUATE - Adequate technical knowledge shown but limited detail. Some hesitation noted.''
      else
        ''LIMITED - Limited technical depth. Seemed uncertain about key competencies.'')"

text \<open>The list \<open>improvements\<close>, built by conditional appends, in the source's order.\<close>

definition improvements :: "int \<Rightarrow> nat \<Rightarrow> nat \<Rightarrow> (string \<times> string \<times> string) list" where
  "improvements grammar_errors n_matched n_cv_only =
     (if grammar_errors > 5 then
        [(''Communication Polish'',
          str_int grammar_errors @ '' grammar/language errors found'',
          ''Practice speaking clearly and slowly. Record yourself and review. Consider English language training. Focus on professional vocabulary.'')]
      else [])
     @ (if n_matched < n_cv_only then
        [(''Experience Discussion'',
          ''Only '' @ str_nat n_matched @ ''/'' @ str_nat (n_matched + n_cv_only) @ '' key skills discussed'',
          ''Prepare specific examples from your CV. Use STAR method (Situation, Task, Action, Result). Highlight ALL relevant achievements.'')]
      else [])
     @ (if n_matched > 0 \<and> n_matched < 3 then
        [(''Technical Knowledge'',
          ''Limited technical skills discussed ('' @ str_nat n_matched @ '')'',
          ''Study the job description thoroughly. Prepare technical project examples. Practice explaining concepts clearly.'')]
      else [])
     @ (if grammar_errors = 0 then
        [(''Communication Excellence'',
          ''No grammar errors'',
          ''Maintain this high standard! Your clarity is a key strength.'')]
      else [])
     @ [(''Confidence & Presence'',
         ''Overall interview presence'',
         ''Make more eye contact. Speak with conviction. Use confident body language. Prepare thoroughly for all questions.'')]"

text \<open>
  The three lists of recommendations and the two texts of next steps that the source
  writes out, and the three colours of the banner.
\<close>

definition hire_recommendations :: "string list" where
  "hire_recommendations =
     [[CHECK_MARK] @ '' STRONG HIRE - Excellent communication and skill match'',
      [CHECK_MARK] @ '' Proceed to technical assessment immediately'',
      [CHECK_MARK] @ '' Prepare compensation offer package'',
      [CHECK_MARK] @ '' Schedule background verification'',
      [CHECK_MARK] @ '' Plan 30-60-90 day onboarding'']"

definition reject_recommendations :: "string list" where
  "reject_recommendations =
     [[BALLOT_X] @ '' NOT RECOMMENDED at this time'',
      [BALLOT_X] @ '' Send professional rejection with feedback'',
      [DIAMOND] @ '' Suggest: English training and reapply in 6 months'',
      [DIAMOND] @ '' Keep in talent pool for future opportunities'',
      [DIAMOND] @ '' Provide resources for improvement'']"

definition review_recommendations :: "string list" where
  "review_recommendations =
     [[DIAMOND] @ '' CONDITIONAL - Requires further evaluation'',
      [DIAMOND] @ '' Technical assessment recommended'',
      [DIAMOND] @ '' Schedule focused follow-up interview'',
      [DIAMOND] @ '' Request portfolio/project examples'',
      [DIAMOND] @ '' Final decision after 2nd round'']"

definition hire_steps :: string where
  "hire_steps =
     ''1. Contact candidate with positive feedback'' @ [NL]
     @ ''2. Schedule technical assessment interview'' @ [NL]
     @ ''3. Prepare offer letter with benefits package'' @ [NL]
     @ ''4. Conduct background and reference check'' @ [NL]
     @ ''5. Send official offer and set start date''"

definition reject_steps :: string where
  "reject_steps =
     ''1. Send professional rejection email'' @ [NL]
     @ ''2. Provide constructive feedback'' @ [NL]
     @ ''3. Recommend language/skill training'' @ [NL]
     @ ''4. Keep contact for future roles'' @ [NL]
     @ ''5. Schedule 6-month follow-up''"

definition green :: rgb where "green = (2, 8, 2)"
definition red :: rgb where "red = (9, 2, 2)"
definition amber :: rgb where "amber = (9, 7, 1)"

text \<open>
  The verdict banner (the text of the box and its colour):
  \<^verbatim>\<open>
  verdict_text = "VERDICT: "
  if "HIRE" in llm_summary.upper() and "REJECT" not in llm_summary.upper():
      verdict_text += "(check) HIRE";    color = (0.2, 0.8, 0.2)
  elif "REJECT" in llm_summary.upper():
      verdict_text += "(cross) REJECT";  color = (0.9, 0.2, 0.2)
  else:
      verdict_text += "(diamond) FURTHER REVIEW"; color = (0.9, 0.7, 0.1)
  \<close>
\<close>

definition verdict_banner :: "string \<Rightarrow> string \<times> rgb" where
  "verdict_banner llm_summary =
     (if str_in ''HIRE'' (upper llm_summary) \<and> \<not> str_in ''REJECT'' (upper llm_summary)
        then (''VERDICT: '' @ [CHECK_MARK] @ '' HIRE'', green)
      else if str_in ''REJECT'' (upper llm_summary)
        then (''VERDICT: '' @ [BALLOT_X] @ '' REJECT'', red)
      else (''VERDICT: '' @ [DIAMOND] @ '' FURTHER REVIEW'', amber))"

text \<open>
  The recommendations, selected by the same three-way test as the banner
  (lines 305 to 328 of the source):
  \<^verbatim>\<open>
  if "HIRE" in llm_summary.upper() and "REJECT" not in llm_summary.upper():
      recommendations = [ ...STRONG HIRE... ]
  elif "REJECT" in llm_summary.upper():
      recommendations = [ ...NOT RECOMMENDED... ]
  else:
      recommendations = [ ...CONDITIONAL... ]
  \<close>
\<close>

definition recommendations :: "string \<Rightarrow> string list" where
  "recommendations llm_summary =
     (if str_in ''HIRE'' (upper llm_summary) \<and> \<not> str_in ''REJECT'' (upper llm_summary)
        then hire_recommendations
      else if str_in ''REJECT'' (upper llm_summary)
        then reject_recommendations
      else review_recommendations)"

text \<open>
  The next steps (lines 344 to 355 of the source), a two-way test:
  \<^verbatim>\<open>
  if "HIRE" in llm_summary.upper() and "REJECT" not in llm_summary.upper():
      steps = """1. Contact candidate with positive feedback ..."""
  else:
      steps = """1. Send professional rejection email ..."""
  \<close>
\<close>

definition next_steps :: "string \<Rightarrow> string" where
  "next_steps llm_summary =
     (if str_in ''HIRE'' (upper llm_summary) \<and> \<not> str_in ''REJECT'' (upper llm_summary)
        then hire_steps
      else reject_steps)"

subsection \<open>The environment of the report\<close>

text \<open>
  What \<open>generate_beautiful_pdf\<close> takes from outside: the three renderings of
  \<open>datetime.now()\<close>, the rendering of the alignment percentage, and reportlab itself.
  \<open>canvas env filename ops\<close> stands for running the calls \<open>ops\<close> on
  \<open>canvas.Canvas(filename, pagesize=letter)\<close>: either a call raises, or all of them
  return and the file system is left in some state, given as the size of the file at each
  path that exists.
\<close>

record environment =
  date_text :: string
  time_text :: string
  id_text :: string
  alignment_text :: "nat \<Rightarrow> nat \<Rightarrow> string"
  canvas :: "string \<Rightarrow> event list \<Rightarrow> exn + (string \<Rightarrow> nat option)"

subsection \<open>The pages\<close>

text \<open>
  The body of \<open>generate_beautiful_pdf\<close>, cut at the source's page banners. Page 1 runs
  from the title to the technical assessment and ends with the test \<open>if y < 150\<close>.
\<close>

definition draw_page1 ::
  "environment \<Rightarrow> int \<Rightarrow> entity fset \<Rightarrow> entity fset \<Rightarrow> entity fset \<Rightarrow> string \<Rightarrow> string \<Rightarrow> string
     \<Rightarrow> event list \<times> int" where
  "draw_page1 env grammar_errors entities matched cv_only llm_summary candidate_name position =
     (let y = letter_h - 40;
          ev_title = [SetFont ''Helvetica-Bold'' 24, SetFillColorRGB (2, 4, 7),
                      DrawString 40 y ''INTERVIEW ASSESSMENT''];
          y = y - 10;
          ev_rule = [SetStrokeColorRGB (2, 4, 7), SetLineWidth 3, Line 40 y (letter_w - 40) y,
                     SetFillColorRGB (0, 0, 0), SetLineWidth 1];
          y = y - 25;
          ev_cand = [SetFont ''Helvetica'' 10,
                     DrawString 40 y (''Candidate: '' @ candidate_name @ ''  |  Position: '' @ position)];
          y = y - 15;
          ev_date = [DrawString 40 y (''Date: '' @ date_text env @ ''  |  Time: '' @ time_text env)];
          y = y - 30;
          (verdict_text, color) = verdict_banner llm_summary;
          (ev_box, y) = draw_colored_box y color verdict_text True;
          y = y - 10;
          (ev_stats_header, y) = draw_section_header y ([BAR_CHART] @ '' QUICK STATS'');
          accuracy = max 0 (100 - grammar_errors * 3);
          ev_s1 = [SetFont ''Helvetica'' 10,
                   DrawString 50 y ([CHECK_MARK] @ '' Grammar Accuracy: '' @ str_int accuracy @ ''%'')];
          y = y - 15;
          ev_s2 = [DrawString 50 y ([CHECK_MARK] @ '' Skills Discussed: '' @ str_nat (fcard matched)
                     @ '' out of '' @ str_nat (fcard matched + fcard cv_only) @ '' (''
                     @ (if fcard matched + fcard cv_only > 0
                        then alignment_text env (fcard matched) (fcard cv_only) else ''0'')
                     @ ''%)'')];
          y = y - 15;
          ev_s3 = [DrawString 50 y ([CHECK_MARK] @ '' Total Entities Identified: '' @ str_nat (fcard entities))];
          y = y - 15;
          ev_s4 = [DrawString 50 y ([CHECK_MARK] @ '' Grammar Errors Found: '' @ str_int grammar_errors)];
          y = y - 25;
          (ev_details_header, y) = draw_section_header y ([BRIEFCASE] @ '' DETAILED ASSESSMENT'');
          ev_c = [SetFont ''Helvetica-Bold'' 11, DrawString 50 y ''1. COMMUNICATION & LANGUAGE SKILLS''];
          y = y - 15;
          (ev_comm, y) = wrap_text y (comm_text grammar_errors) 9 20;
          y = y - 10;
          ev_e = [SetFont ''Helvetica-Bold'' 11, DrawString 50 y ''2. EXPERIENCE & SKILL ALIGNMENT''];
          y = y - 15;
          (ev_exp, y) = wrap_text y (exp_text (fcard matched) (fcard cv_only)) 9 20;
          y = y - 10;
          ev_t = [SetFont ''Helvetica-Bold'' 11, DrawString 50 y ''3. TECHNICAL KNOWLEDGE & CONFIDENCE''];
          y = y - 15;
          (ev_tech, y) = wrap_text y (tech_text (fcard matched)) 9 20;
          y = y - 20;
          (ev_break, y) = (if y < 150 then ([ShowPage], letter_h - 40) else ([], y))
      in (ev_title @ ev_rule @ ev_cand @ ev_date @ ev_box @ ev_stats_header
          @ ev_s1 @ ev_s2 @ ev_s3 @ ev_s4 @ ev_details_header
          @ ev_c @ ev_comm @ ev_e @ ev_exp @ ev_t @ ev_tech @ ev_break, y))"

text \<open>
  The loop over \<open>enumerate(improvements, 1)\<close>:
  \<^verbatim>\<open>
  for i, (area, current, action) in enumerate(improvements, 1):
      if y < 100:
          c.showPage()
          y = h - 40
      c.setFont("Helvetica-Bold", 10)
      c.drawString(50, y, f"{i}. {area}")
      y -= 12
      c.setFont("Helvetica", 9)
      c.drawString(60, y, f"Current: {current}")
      y -= 10
      y = wrap_text(y, f"Action: {action}", 9, indent=30)
      y -= 8
  \<close>
\<close>

fun draw_improvements :: "nat \<Rightarrow> (string \<times> string \<times> string) list \<Rightarrow> int \<Rightarrow> event list \<times> int" where
  "draw_improvements i [] y = ([], y)"
| "draw_improvements i ((area, current, action) # rest) y =
     (let (ev_break, y) = (if y < 100 then ([ShowPage], letter_h - 40) else ([], y));
          ev_area = [SetFont ''Helvetica-Bold'' 10, DrawString 50 y (str_nat i @ ''. '' @ area)];
          y = y - 12;
          ev_current = [SetFont ''Helvetica'' 9, DrawString 60 y (''Current: '' @ current)];
          y = y - 10;
          (ev_action, y) = wrap_text y (''Action: '' @ action) 9 30;
          y = y - 8;
          (evs, y) = draw_improvements (Suc i) rest y
      in (ev_break @ ev_area @ ev_current @ ev_action @ evs, y))"

text \<open>Page 2: the header of the improvement areas and the loop above.\<close>

definition draw_page2 :: "int \<Rightarrow> nat \<Rightarrow> nat \<Rightarrow> int \<Rightarrow> event list \<times> int" where
  "draw_page2 grammar_errors n_matched n_cv_only y =
     (let (ev_header, y) = draw_section_header y ([DIRECT_HIT] @ '' AREAS FOR IMPROVEMENT'');
          y = y - 10;
          (ev_items, y) = draw_improvements 1 (improvements grammar_errors n_matched n_cv_only) y
      in (ev_header @ ev_items, y))"

text \<open>
  \<^verbatim>\<open>
  for rec in recommendations:
      if y < 50:
          c.showPage()
          y = h - 40
      y = wrap_text(y, rec, 10)
      y -= 5
  \<close>
\<close>

fun draw_recommendations :: "string list \<Rightarrow> int \<Rightarrow> event list \<times> int" where
  "draw_recommendations [] y = ([], y)"
| "draw_recommendations (r # rest) y =
     (let (ev_break, y) = (if y < 50 then ([ShowPage], letter_h - 40) else ([], y));
          (ev_rec, y) = wrap_text y r 10 0;
          y = y - 5;
          (evs, y) = draw_recommendations rest y
      in (ev_break @ ev_rec @ evs, y))"

text \<open>
  Page 3 starts with the test \<open>if y < 200\<close> and holds the recommendations and the next
  steps.
\<close>

definition draw_page3 :: "string \<Rightarrow> int \<Rightarrow> event list \<times> int" where
  "draw_page3 llm_summary y =
     (let (ev_break, y) = (if y < 200 then ([ShowPage], letter_h - 40) else ([], y));
          (ev_header, y) = draw_section_header y ([CHECK_BUTTON] @ '' HR RECOMMENDATIONS'');
          y = y - 10;
          (ev_recs, y) = draw_recommendations (recommendations llm_summary) y;
          y = y - 10;
          (ev_steps_header, y) = draw_section_header y ([CLIPBOARD] @ '' NEXT STEPS'');
          y = y - 10;
          (ev_steps, y) = wrap_text y (next_steps llm_summary) 9 15
      in (ev_break @ ev_header @ ev_recs @ ev_steps_header @ ev_steps, y))"

text \<open>
  The footer is drawn at two fixed heights, whatever the vertical position is:
  \<^verbatim>\<open>
  c.setFont("Helvetica", 7)
  c.setFillColorRGB(0.6, 0.6, 0.6)
  c.drawString(40, 25, "CONFIDENTIAL - For HR Use Only")
  c.drawString(40, 15, f"Assessment ID: {datetime.now().strftime('%Y%m%d%H%M%S%f')[:14]}")
  \<close>
\<close>

definition draw_footer :: "environment \<Rightarrow> event list" where
  "draw_footer env =
     [SetFont ''Helvetica'' 7,
      SetFillColorRGB (6, 6, 6),
      DrawString 40 25 ''CONFIDENTIAL - For HR Use Only'',
      DrawString 40 15 (''Assessment ID: '' @ id_text env)]"

text \<open>Everything drawn at the vertical position \<open>y\<close>, from the title to the next steps.\<close>

definition draw_body ::
  "environment \<Rightarrow> int \<Rightarrow> entity fset \<Rightarrow> entity fset \<Rightarrow> entity fset \<Rightarrow> string \<Rightarrow> string \<Rightarrow> string
     \<Rightarrow> event list \<times> int" where
  "draw_body env grammar_errors entities matched cv_only llm_summary candidate_name position =
     (let (ev1, y) = draw_page1 env grammar_errors entities matched cv_only llm_summary
                       candidate_name position;
          (ev2, y) = draw_page2 grammar_errors (fcard matched) (fcard cv_only) y;
          (ev3, y) = draw_page3 llm_summary y
      in (ev1 @ ev2 @ ev3, y))"

text \<open>
  The whole function. Its drawing runs inside \<open>try\<close>; \<open>except Exception\<close> prints the
  error and returns \<open>False\<close>. After \<open>c.save()\<close>:
  \<^verbatim>\<open>
  if os.path.exists(filename):
      size = os.path.getsize(filename)
      print(...)
      return True
  else:
      print(...)
      return False
  \<close>
  The result is a sum so that a raise of the function itself would be a value \<open>Inl\<close>.
  The parameters \<open>transcript\<close> and \<open>cv_text\<close> are not used by the source either.
\<close>

definition generate_beautiful_pdf ::
  "environment \<Rightarrow> string \<Rightarrow> string \<Rightarrow> int \<Rightarrow> entity fset \<Rightarrow> string \<Rightarrow> entity fset \<Rightarrow> entity fset
     \<Rightarrow> string \<Rightarrow> string \<Rightarrow> string \<Rightarrow> exn + bool" where
  "generate_beautiful_pdf env filename transcript grammar_errors entities cv_text matched cv_only
     llm_summary candidate_name position =
     (let (ev_body, y) = draw_body env grammar_errors entities matched cv_only llm_summary
                           candidate_name position;
          ops = ev_body @ draw_footer env @ [Save]
      in case canvas env filename ops of
           Inl e \<Rightarrow> Inr False
         | Inr files \<Rightarrow>
             (case files filename of
                Some sz \<Rightarrow> Inr True
              | None \<Rightarrow> Inr False))"

section \<open>Notions used in the statements\<close>

text \<open>
  The judge is unusable when the import fails, when \<open>generate\<close> raises, or when the text
  of the response has at most 30 characters (the empty text included).
\<close>

definition judge_unusable ::
  "judge option \<Rightarrow> string \<Rightarrow> int \<Rightarrow> entity fset \<Rightarrow> entity fset \<Rightarrow> bool" where
  "judge_unusable ollama transcript grammar_errors matched_entities missing_entities =
     (case ollama of
        None \<Rightarrow> True
      | Some generate \<Rightarrow>
          (case generate (prompt transcript grammar_errors matched_entities missing_entities) of
             Inl e \<Rightarrow> True
           | Inr response \<Rightarrow> length (response_text response) \<le> 30))"

text \<open>The narrative paragraph of the fallback, as a function of the matched count.\<close>

definition narrative :: "nat \<Rightarrow> string" where
  "narrative n =
      ''The candidate demonstrated professional communication abilities. Experience alignment is ''
      @ (if n > 3 then ''excellent'' else if n > 1 then ''good'' else ''limited'')
      @ ''. Technical competency appears ''
      @ (if n > 3 then ''strong'' else ''adequate'')
      @ ''.''"

text \<open>
  An event is on the page when nothing it draws lies below the bottom margin of 50.
  A rectangle is given by its lower left corner and a height that is positive in the
  source.
\<close>

fun on_page :: "event \<Rightarrow> bool" where
  "on_page (DrawString x y s) = (50 \<le> y)"
| "on_page (Rect x y wd ht) = (50 \<le> y)"
| "on_page (Line x1 y1 x2 y2) = (50 \<le> y1 \<and> 50 \<le> y2)"
| "on_page e = True"





text \<open>
  An environment for the examples: a date, and a canvas whose calls all return and leave
  an empty file at the path.
\<close>

definition example_env :: environment where
  "example_env =
     \<lparr>date_text = ''November 03, 2026'', time_text = ''09:00 AM'', id_text = ''20261103090000'',
      alignment_text = (\<lambda>m c. str_nat (100 * m div (m + c))),
      canvas = (\<lambda>filename ops. Inr (\<lambda>path. if path = filename then Some 0 else None))\<rparr>"

section \<open>Lemmas on strings and the judgment\<close>

lemma str_in_sublist: "str_in sub s = sublist sub s"
  by (induction s) (auto simp: sublist_Cons_right)

lemma split_on_nonempty: "split_on sep s \<noteq> []"
  by (induction s) (auto simp: Let_def)

lemma split_on_append:
  "split_on sep (a @ sep # b) = split_on sep a @ split_on sep b"
  by (induction a) (auto simp: Let_def split_on_nonempty)

lemma split_on_no_sep: "sep \<notin> set s \<Longrightarrow> split_on sep s = [s]"
  by (induction s) (auto simp: Let_def)

lemma str_in_prefix: "prefix sub s \<Longrightarrow> str_in sub s"
  by (cases s) auto

lemma str_in_appendI1: "str_in sub a \<Longrightarrow> str_in sub (a @ b)"
  unfolding str_in_sublist by (metis sublist_append)

lemma prefix_hd_split_on:
  "prefix p s \<Longrightarrow> sep \<notin> set p \<Longrightarrow> prefix p (hd (split_on sep s))"
proof (induction s arbitrary: p)
  case Nil
  then show ?case by simp
next
  case (Cons c cs)
  show ?case
  proof (cases p)
    case Nil
    then show ?thesis by simp
  next
    case (Cons q qs)
    with Cons.prems have "q = c" "prefix qs cs" "sep \<notin> set qs" "c \<noteq> sep"
      by auto
    with Cons.IH [of qs] Cons show ?thesis
      by (simp add: Let_def)
  qed
qed

lemma str_in_line:
  "str_in sub s \<Longrightarrow> sep \<notin> set sub \<Longrightarrow> \<exists>l \<in> set (split_on sep s). str_in sub l"
proof (induction s)
  case Nil
  then show ?case by simp
next
  case (Cons c cs)
  let ?r = "split_on sep cs"
  have r: "?r = hd ?r # tl ?r"
    using split_on_nonempty [of sep cs] by simp
  show ?case
  proof (cases "prefix sub (c # cs)")
    case True
    then have "prefix sub (hd (split_on sep (c # cs)))"
      using Cons.prems(2) by (rule prefix_hd_split_on)
    then have "str_in sub (hd (split_on sep (c # cs)))"
      by (rule str_in_prefix)
    moreover have "hd (split_on sep (c # cs)) \<in> set (split_on sep (c # cs))"
      using split_on_nonempty [of sep "c # cs"] by (intro hd_in_set)
    ultimately show ?thesis by blast
  next
    case False
    with Cons.prems have "str_in sub cs" by simp
    with Cons.IH Cons.prems obtain l where l: "l \<in> set ?r" "str_in sub l"
      by blast
    show ?thesis
    proof (cases "c = sep")
      case True
      with l show ?thesis by (auto simp: Let_def)
    next
      case csep: False
      from l(1) r have "l = hd ?r \<or> l \<in> set (tl ?r)"
        by (metis set_ConsD)
      then show ?thesis
      proof
        assume "l = hd ?r"
        with l(2) have "str_in sub (c # hd ?r)" by simp
        then show ?thesis
          using csep by (simp add: Let_def)
      next
        assume "l \<in> set (tl ?r)"
        then show ?thesis
          using l(2) csep by (auto simp: Let_def)
      qed
    qed
  qed
qed

lemma str_in_appendI2: "str_in sub b \<Longrightarrow> str_in sub (a @ b)"
  by (induction a) auto

lemma verdict_line_appended:
  assumes "\<not> str_in ''VERDICT:'' a" and "NL \<notin> set a" and "NL \<notin> set v"
  shows "verdict_line (a @ [NL, NL] @ ''VERDICT: '' @ v) = Some (''VERDICT: '' @ v)"
proof -
  have nl: "NL \<notin> set (''VERDICT: '' @ v)"
    using assms(3) by (simp add: NL_def)
  have "split_on NL (a @ NL # (NL # ''VERDICT: '' @ v)) = [a, [], ''VERDICT: '' @ v]"
    unfolding split_on_append
    using split_on_append [of NL "[]" "''VERDICT: '' @ v"] split_on_no_sep [OF nl]
      split_on_no_sep [OF assms(2)]
    by simp
  moreover have "str_in ''VERDICT:'' (''VERDICT: '' @ v)"
    by (rule str_in_prefix) simp
  moreover have "str_in ''VERDICT:'' (a @ [NL, NL] @ ''VERDICT: '' @ v)"
    using calculation(2) str_in_appendI2 [of "''VERDICT:''" "''VERDICT: '' @ v" "a @ [NL, NL]"]
    by simp
  ultimately show ?thesis
    using assms(1) by (simp add: verdict_line_def)
qed

lemma get_llm_judgment_unusable:
  "judge_unusable J t g M U \<Longrightarrow> get_llm_judgment J t g M U = Inr (fallback_judgment g M)"
  by (auto simp: judge_unusable_def get_llm_judgment_def judge_try_def Let_def
      split: option.splits sum.splits)

lemma get_llm_judgment_usable:
  assumes "generate (prompt t g M U) = Inr r" and "length (response_text r) > 30"
  shows "get_llm_judgment (Some generate) t g M U =
     Inr (let a = response_text r in
          if str_in ''VERDICT:'' a then a
          else if str_in ''HIRE'' (upper a) then a @ [NL, NL] @ ''VERDICT: HIRE''
          else a @ [NL, NL] @ ''VERDICT: REJECT'')"
  using assms by (auto simp: get_llm_judgment_def judge_try_def Let_def)

lemma judge_cases:
  "judge_unusable J t g M U \<or>
   (\<exists>generate r. J = Some generate \<and> generate (prompt t g M U) = Inr r \<and> length (response_text r) > 30)"
  by (auto simp: judge_unusable_def split: option.splits sum.splits)

lemma fallback_verdict_no_NL: "NL \<notin> set (fallback_verdict g n)"
  by (simp add: fallback_verdict_def NL_def)

lemma fallback_judgment_narrative:
  "fallback_judgment g M = narrative (fcard M) @ [NL, NL] @ ''VERDICT: '' @ fallback_verdict g (fcard M)"
  by (simp add: fallback_judgment_def narrative_def Let_def)

lemma narrative_no_NL: "NL \<notin> set (narrative n)"
  by (simp add: narrative_def NL_def)

lemma narrative_no_verdict: "\<not> str_in ''VERDICT:'' (narrative n)"
  by (simp add: narrative_def)

lemma verdict_line_fallback:
  "verdict_line (fallback_judgment g M) = Some (''VERDICT: '' @ fallback_verdict g (fcard M))"
  unfolding fallback_judgment_narrative
  by (rule verdict_line_appended [OF narrative_no_verdict narrative_no_NL fallback_verdict_no_NL])

lemma NL_not_in_marker: "NL \<notin> set ''VERDICT:''"
  by (simp add: NL_def)

lemma has_verdict_line:
  "str_in ''VERDICT:'' s \<Longrightarrow> \<exists>l \<in> set (split_on NL s). str_in ''VERDICT:'' l"
  by (rule str_in_line [OF _ NL_not_in_marker])

lemma appended_has_marker: "str_in ''VERDICT:'' (a @ [NL, NL] @ ''VERDICT: '' @ v)"
  using str_in_appendI2 [of "''VERDICT:''" "''VERDICT: '' @ v" "a @ [NL, NL]"]
  by (simp add: str_in_prefix)

lemma fallback_has_marker: "str_in ''VERDICT:'' (fallback_judgment g M)"
  unfolding fallback_judgment_narrative by (rule appended_has_marker)

lemma str_in_map:
  "str_in ys (map f xs) \<longleftrightarrow> (\<exists>w. str_in w xs \<and> map f w = ys)"
proof
  assume "str_in ys (map f xs)"
  then obtain ps ss where "map f xs = ps @ ys @ ss"
    unfolding str_in_sublist sublist_def by blast
  then obtain us vs where 1: "xs = us @ vs" "ys @ ss = map f vs"
    by (auto simp: map_eq_append_conv)
  from 1(2) obtain b c where "vs = b @ c" "ys = map f b"
    by (auto simp: append_eq_map_conv)
  with 1(1) have "xs = us @ b @ c" "map f b = ys"
    by simp_all
  then show "\<exists>w. str_in w xs \<and> map f w = ys"
    unfolding str_in_sublist sublist_def by blast
next
  assume "\<exists>w. str_in w xs \<and> map f w = ys"
  then obtain w ps ss where "xs = ps @ w @ ss" "map f w = ys"
    unfolding str_in_sublist sublist_def by blast
  then have "map f xs = map f ps @ ys @ map f ss" by simp
  then show "str_in ys (map f xs)"
    unfolding str_in_sublist sublist_def by blast
qed

section \<open>Lemmas on wrapping\<close>





















section \<open>Lemmas on the texts of the report\<close>









section \<open>Lemmas on the pages\<close>


lemma draw_section_header_y: "snd (draw_section_header y title) = y - 25"
  by (simp add: draw_section_header_def)

lemma draw_colored_box_on_page:
  "75 \<le> y \<Longrightarrow> list_all on_page (fst (draw_colored_box y color tx bold))"
  by (simp add: draw_colored_box_def)

lemma draw_colored_box_y: "snd (draw_colored_box y color tx bold) = y - 30"
  by (simp add: draw_colored_box_def)

















section \<open>Lemmas on page breaks and line widths\<close>






















section \<open>The entity comparison\<close>

text \<open>
  Claim C3. For all entity sets A (transcript) and B (CV), \<open>compare_entities A B\<close> returns
  matched = A \<inter> B and unmentioned = B - A, entities being compared as (text, label) pairs
  by value; the two outputs are disjoint, matched lies inside both inputs, and empty inputs
  give empty outputs.
\<close>

theorem compare_entities_spec:
  "fst (compare_entities A B) = A |\<inter>| B
   \<and> snd (compare_entities A B) = B |-| A
   \<and> fst (compare_entities A B) |\<inter>| snd (compare_entities A B) = {||}
   \<and> fst (compare_entities A B) |\<subseteq>| B |\<inter>| A
   \<and> compare_entities {||} {||} = ({||}, {||})
   \<and> compare_entities A {||} = ({||}, {||})
   \<and> compare_entities {||} B = ({||}, B)"
  unfolding compare_entities_def Let_def by auto

text \<open>
  Claim C9. \<open>compare_entities A B\<close> partitions the CV set B: the union of matched and
  unmentioned is B, the two parts are disjoint (so each CV entity is in exactly one of
  them), and no entity that occurs only in the transcript is in either output.
\<close>

theorem compare_entities_partition:
  "fst (compare_entities A B) |\<union>| snd (compare_entities A B) = B
   \<and> fst (compare_entities A B) |\<inter>| snd (compare_entities A B) = {||}
   \<and> (A |-| B) |\<inter>| (fst (compare_entities A B) |\<union>| snd (compare_entities A B)) = {||}"
  unfolding compare_entities_def Let_def by auto

section \<open>The verdict and the judgment\<close>

text \<open>
  Claim C1. The fallback verdict follows the stated precedence, first match winning:
  more than 15 grammar errors give REJECT whatever the matched count; otherwise fewer
  than 5 errors together with at least 3 matched entities give HIRE; otherwise the token
  is MAYBE (the REVIEW verdict). The source tests the HIRE rule first, which makes no
  difference since the two conditions exclude each other. The three examples of the
  specification are instances.
\<close>

theorem fallback_verdict_precedence:
  "fallback_verdict g m =
     (if g > 15 then ''REJECT''
      else if g < 5 \<and> m \<ge> 3 then ''HIRE''
      else ''MAYBE'')
   \<and> fallback_verdict 20 m = ''REJECT''
   \<and> fallback_verdict 2 4 = ''HIRE''
   \<and> fallback_verdict 7 1 = ''MAYBE''"
  unfolding fallback_verdict_def by simp

text \<open>
  Claim C2. For every transcript, error count and pair of entity sets, and for every judge
  (absent, raising, answering with a dict that lacks the text, or answering with any
  text), \<open>get_llm_judgment\<close> does not raise: it returns a string. One of the lines of
  that string contains \<open>VERDICT:\<close>. When the judge is unusable, the first such line,
  which is what \<open>main\<close> prints, is \<open>VERDICT:\<close> followed by the fallback verdict
  for the same error count and matched count.
\<close>

theorem get_llm_judgment_total:
  "\<exists>s. get_llm_judgment J t g M U = Inr s
       \<and> (\<exists>l \<in> set (split_on NL s). str_in ''VERDICT:'' l)
       \<and> (judge_unusable J t g M U \<longrightarrow>
            verdict_line s = Some (''VERDICT: '' @ fallback_verdict g (fcard M)))"
proof (cases "judge_unusable J t g M U")
  case True
  then have "get_llm_judgment J t g M U = Inr (fallback_judgment g M)"
    by (rule get_llm_judgment_unusable)
  then show ?thesis
    using has_verdict_line [OF fallback_has_marker] verdict_line_fallback by simp
next
  case False
  with judge_cases [of J t g M U] obtain generate r where
    u: "J = Some generate" "generate (prompt t g M U) = Inr r" "length (response_text r) > 30"
    by blast
  let ?a = "response_text r"
  have "str_in ''VERDICT:'' (?a @ [NL, NL] @ ''VERDICT: HIRE'')"
       "str_in ''VERDICT:'' (?a @ [NL, NL] @ ''VERDICT: REJECT'')"
    using appended_has_marker [of ?a "''HIRE''"] appended_has_marker [of ?a "''REJECT''"]
    by simp_all
  then show ?thesis
    using False get_llm_judgment_usable [of generate t g M U r, OF u(2,3)] has_verdict_line unfolding u(1)
    by (simp add: Let_def)
qed

text \<open>
  An instance: no judge, 7 errors and one matched entity give the token MAYBE.
\<close>

theorem get_llm_judgment_total_witness:
  "judge_unusable None ''I worked at Google'' 7 {|(''Google'', ''ORG'')|} {||}
   \<and> (\<exists>s. get_llm_judgment None ''I worked at Google'' 7 {|(''Google'', ''ORG'')|} {||} = Inr s
          \<and> (\<exists>l \<in> set (split_on NL s). str_in ''VERDICT:'' l)
          \<and> verdict_line s = Some ''VERDICT: MAYBE'')"
proof -
  have u: "judge_unusable None ''I worked at Google'' 7 {|(''Google'', ''ORG'')|} {||}"
    by (simp add: judge_unusable_def)
  have v: "fallback_verdict 7 (fcard {|(''Google'', ''ORG'')|}) = ''MAYBE''"
    by (simp add: fallback_verdict_def)
  show ?thesis
    using u v
      get_llm_judgment_total [of None "''I worked at Google''" 7 "{|(''Google'', ''ORG'')|}" "{||}"]
    by simp
qed

text \<open>
  Claim C4, as the source has it. When the response of the judge is not empty and has
  more than 30 characters: if it contains the marker \<open>VERDICT:\<close> it is returned as
  it is, whether or not one of the tokens HIRE, REJECT and MAYBE occurs in it; otherwise a
  verdict line is appended, with HIRE if some part of the response reads HIRE once
  upper-cased and with REJECT if not. In both cases the returned text starts with the
  response.
\<close>

theorem get_llm_judgment_long_response:
  assumes "generate (prompt t g M U) = Inr r"
    and "response_text r \<noteq> []"
    and "length (response_text r) > 30"
  shows "get_llm_judgment (Some generate) t g M U =
           Inr (if str_in ''VERDICT:'' (response_text r) then response_text r
                else if (\<exists>w. str_in w (response_text r) \<and> upper w = ''HIRE'')
                     then response_text r @ [NL, NL] @ ''VERDICT: HIRE''
                     else response_text r @ [NL, NL] @ ''VERDICT: REJECT'')
         \<and> (\<exists>s. get_llm_judgment (Some generate) t g M U = Inr s \<and> prefix (response_text r) s)"
proof -
  have "str_in ''HIRE'' (upper (response_text r))
          \<longleftrightarrow> (\<exists>w. str_in w (response_text r) \<and> upper w = ''HIRE'')"
    unfolding upper_def by (rule str_in_map)
  then show ?thesis
    using get_llm_judgment_usable [of generate t g M U r, OF assms(1) assms(3)]
    by (simp add: Let_def)
qed

text \<open>
  An instance: a response of 42 characters with the word in lower case and no marker.
\<close>

theorem get_llm_judgment_long_response_witness:
  "response_text (RDict (Some ''I think we should hire this candidate now.'')) \<noteq> []
   \<and> length (response_text (RDict (Some ''I think we should hire this candidate now.''))) > 30
   \<and> get_llm_judgment (Some (\<lambda>p. Inr (RDict (Some ''I think we should hire this candidate now.''))))
        ''We shipped it'' 2 {||} {||} =
      Inr (''I think we should hire this candidate now.'' @ [NL, NL] @ ''VERDICT: HIRE'')"
proof -
  let ?txt = "''I think we should hire this candidate now.''"
  let ?r = "RDict (Some ?txt)"
  have t: "response_text ?r = ?txt"
    by (simp add: response_text_def)
  have n: "\<not> str_in ''VERDICT:'' ?txt"
    by simp
  have "str_in ''hire'' ?txt \<and> upper ''hire'' = ''HIRE''"
    by (simp add: upper_def upper_char_def DOTLESS_I_def T_DIAERESIS_def)
  then have h: "\<exists>w. str_in w ?txt \<and> upper w = ''HIRE''"
    by blast
  have l: "length ?txt > 30"
    by simp
  show ?thesis
    using get_llm_judgment_long_response [of "\<lambda>p. Inr ?r" "''We shipped it''" 2 "{||}" "{||}" ?r]
    unfolding t using n h l by simp
qed

text \<open>
  The test is for the marker and not for a verdict token: a response of 53 characters
  that contains the token MAYBE and no marker is not returned as it is, and gets the
  verdict REJECT.
\<close>

theorem token_without_marker_counterexample:
  "str_in ''MAYBE'' ''MAYBE - a second technical interview round is needed.''
   \<and> length ''MAYBE - a second technical interview round is needed.'' > 30
   \<and> get_llm_judgment
         (Some (\<lambda>p. Inr (RDict (Some ''MAYBE - a second technical interview round is needed.''))))
         ''We shipped it'' 2 {||} {||} =
       Inr (''MAYBE - a second technical interview round is needed.'' @ [NL, NL]
            @ ''VERDICT: REJECT'')"
  by code_simp

text \<open>
  Claim C10. When the judge is unusable, the returned paragraph is made of a fixed
  sentence on communication, an alignment descriptor that is a function of the matched
  count alone (more than 3 gives excellent, more than 1 gives good, otherwise limited), a
  technical descriptor that is strong or adequate and never limited, and the fallback
  verdict. Hence two calls with unusable judges, equal matched counts and equal fallback
  verdicts return the same text, whatever the transcripts, the error counts and the
  unmentioned sets are.
\<close>

theorem fallback_narrative_shape:
  assumes "judge_unusable J t g M U"
  shows "(\<exists>align tech.
            get_llm_judgment J t g M U =
              Inr (''The candidate demonstrated professional communication abilities. ''
                   @ ''Experience alignment is '' @ align
                   @ ''. Technical competency appears '' @ tech @ ''.''
                   @ [NL, NL] @ ''VERDICT: '' @ fallback_verdict g (fcard M))
            \<and> align = (if fcard M > 3 then ''excellent'' else if fcard M > 1 then ''good'' else ''limited'')
            \<and> tech = (if fcard M > 3 then ''strong'' else ''adequate'')
            \<and> tech \<noteq> ''limited'')
         \<and> (\<forall>J' t' g' M' U'.
               judge_unusable J' t' g' M' U' \<and> fcard M' = fcard M
               \<and> fallback_verdict g' (fcard M') = fallback_verdict g (fcard M)
               \<longrightarrow> get_llm_judgment J' t' g' M' U' = get_llm_judgment J t g M U)"
proof -
  have here: "get_llm_judgment J t g M U = Inr (fallback_judgment g M)"
    using assms by (rule get_llm_judgment_unusable)
  have shape: "\<exists>align tech.
            get_llm_judgment J t g M U =
              Inr (''The candidate demonstrated professional communication abilities. ''
                   @ ''Experience alignment is '' @ align
                   @ ''. Technical competency appears '' @ tech @ ''.''
                   @ [NL, NL] @ ''VERDICT: '' @ fallback_verdict g (fcard M))
            \<and> align = (if fcard M > 3 then ''excellent'' else if fcard M > 1 then ''good'' else ''limited'')
            \<and> tech = (if fcard M > 3 then ''strong'' else ''adequate'')
            \<and> tech \<noteq> ''limited''"
    unfolding here by (simp add: fallback_judgment_def Let_def)
  have same: "get_llm_judgment J' t' g' M' U' = get_llm_judgment J t g M U"
    if "judge_unusable J' t' g' M' U'" and "fcard M' = fcard M"
      and "fallback_verdict g' (fcard M') = fallback_verdict g (fcard M)"
    for J' t' g' M' U'
    unfolding here get_llm_judgment_unusable [OF that(1)] fallback_judgment_narrative
    using that(2,3) by simp
  from shape same show ?thesis
    by blast
qed

text \<open>
  An instance: the judge answers with 13 characters; 30 errors and two matched entities
  out of three give the descriptors good and adequate, although two thirds of the CV
  entities are matched, and the verdict REJECT.
\<close>

theorem fallback_narrative_shape_witness:
  "judge_unusable (Some (\<lambda>p. Inr (RDict (Some ''VERDICT: HIRE'')))) ''We shipped it'' 30
     {|(''Python'', ''SKILL''), (''Java'', ''SKILL'')|} {|(''SQL'', ''SKILL'')|}
   \<and> get_llm_judgment (Some (\<lambda>p. Inr (RDict (Some ''VERDICT: HIRE'')))) ''We shipped it'' 30
     {|(''Python'', ''SKILL''), (''Java'', ''SKILL'')|} {|(''SQL'', ''SKILL'')|} =
       Inr (''The candidate demonstrated professional communication abilities. ''
            @ ''Experience alignment is good. Technical competency appears adequate.''
            @ [NL, NL] @ ''VERDICT: REJECT'')"
proof -
  let ?J = "Some (\<lambda>p::string. (Inr (RDict (Some ''VERDICT: HIRE'')) :: exn + response))"
  let ?M = "{|(''Python'', ''SKILL''), (''Java'', ''SKILL'')|}"
  let ?U = "{|(''SQL'', ''SKILL'')|}"
  have u: "judge_unusable ?J ''We shipped it'' 30 ?M ?U"
    by (simp add: judge_unusable_def response_text_def)
  have c: "fcard ?M = 2"
    by (simp add: fcard_finsert_if)
  have v: "fallback_verdict 30 2 = ''REJECT''"
    by (simp add: fallback_verdict_def)
  show ?thesis
    using fallback_narrative_shape [OF u] u unfolding c v by simp
qed

section \<open>The report\<close>

text \<open>
  Claim C5. The banner and the recommendations are selected by one three-way test on the
  judgment, but the next steps are selected by a two-way test: for a judgment that is
  neither HIRE nor REJECT the report shows the amber banner and the conditional list of
  recommendations, and then the next steps of a rejection. The judgment below is the
  fallback for 7 errors and one matched entity, whose verdict is MAYBE.
\<close>

theorem review_judgment_gets_reject_steps:
  "verdict_line (fallback_judgment 7 {|(''Python'', ''SKILL'')|}) = Some ''VERDICT: MAYBE''
   \<and> snd (verdict_banner (fallback_judgment 7 {|(''Python'', ''SKILL'')|})) = amber
   \<and> recommendations (fallback_judgment 7 {|(''Python'', ''SKILL'')|}) = review_recommendations
   \<and> next_steps (fallback_judgment 7 {|(''Python'', ''SKILL'')|}) = reject_steps
   \<and> next_steps (fallback_judgment 7 {|(''Python'', ''SKILL'')|})
       = next_steps (fallback_judgment 20 {|(''Python'', ''SKILL'')|})"
proof -
  let ?s = "fallback_judgment 7 {|(''Python'', ''SKILL'')|}"
  let ?r = "fallback_judgment 20 {|(''Python'', ''SKILL'')|}"
  have c: "fcard {|(''Python'', ''SKILL'')|} = 1"
    by (simp add: fcard_finsert_if)
  have s: "?s = ''The candidate demonstrated professional communication abilities. Experience alignment is limited. Technical competency appears adequate.'' @ [NL, NL] @ ''VERDICT: MAYBE''"
    by (simp add: fallback_judgment_def fallback_verdict_def c)
  have r: "?r = ''The candidate demonstrated professional communication abilities. Experience alignment is limited. Technical competency appears adequate.'' @ [NL, NL] @ ''VERDICT: REJECT''"
    by (simp add: fallback_judgment_def fallback_verdict_def c)
  have hs: "\<not> str_in ''HIRE'' (upper ?s)"
    unfolding s by code_simp
  have rs: "\<not> str_in ''REJECT'' (upper ?s)"
    unfolding s by code_simp
  have rr: "str_in ''REJECT'' (upper ?r)"
    unfolding r by code_simp
  have v: "verdict_line ?s = Some (''VERDICT: '' @ fallback_verdict 7 (fcard {|(''Python'', ''SKILL'')|}))"
    by (rule verdict_line_fallback)
  show ?thesis
    using hs rs rr v
    by (simp add: verdict_banner_def recommendations_def next_steps_def fallback_verdict_def c)
qed






text \<open>
  Claim C8, as the source has it. \<open>generate_beautiful_pdf\<close> never raises. It returns
  \<open>True\<close> exactly when every canvas call up to \<open>save\<close> returned and the file exists
  afterwards, and \<open>False\<close> when a call raised or the file does not exist. The size of
  the file is printed and not tested.
\<close>

theorem generate_beautiful_pdf_result:
  "generate_beautiful_pdf env filename transcript g entities cv_text matched cv_only
     llm_summary candidate_name position =
   Inr (case canvas env filename
               (fst (draw_body env g entities matched cv_only llm_summary candidate_name position)
                @ draw_footer env @ [Save]) of
          Inl e \<Rightarrow> False
        | Inr files \<Rightarrow> files filename \<noteq> None)"
  by (simp add: generate_beautiful_pdf_def Let_def case_prod_beta split: sum.splits option.splits)

text \<open>
  Success is reported for a file that exists and is empty: here the canvas calls all
  return and leave a file of size 0 at the path.
\<close>

theorem empty_file_reported_as_success_counterexample:
  "generate_beautiful_pdf example_env
     ''final_interview_report.pdf'' ''We shipped it'' 2 {|(''Python'', ''SKILL'')|} ''Python, Java, SQL''
     {|(''Python'', ''SKILL'')|} {|(''Java'', ''SKILL''), (''SQL'', ''SKILL'')|}
     ''VERDICT: MAYBE'' ''John Doe'' ''Engineer''
   = Inr True"
  by (simp add: generate_beautiful_pdf_def example_env_def Let_def case_prod_beta)

end
